theory Spec2Isabelle
  imports Complex_Main "HOL-Library.Sublist"
begin

section \<open>Extraction of the Travis County buildings: the model\<close>

text \<open>
  A shallow embedding of \<^verbatim>\<open>scripts/extract_travis_buildings.py\<close>.

  \<^item> A value decoded by \<^verbatim>\<open>json.loads\<close> is a \<open>json\<close>; a Python dict is an association
    list in insertion order with distinct keys, read with \<open>map_of\<close>.
  \<^item> Python numbers (int and float) are exact rationals: rounding, NaN, the infinities and
    the OverflowError of huge integers are outside the model. No general theorem below
    depends on the value of a sum or of a quotient, and the sample inputs use numbers
    whose sums and quotients are exact in binary floating point.
  \<^item> A \<open>char\<close> is one code point below 256.
  \<^item> Every \<^verbatim>\<open>raise\<close> inside \<^verbatim>\<open>is_in_travis_county\<close> is a value \<open>Inl e\<close>; the
    \<^verbatim>\<open>try\<close>/\<^verbatim>\<open>except Exception\<close> of the source turns it into \<open>False\<close>.
  \<^item> The decoder \<^verbatim>\<open>json.loads\<close> belongs to the Python library; it is a parameter
    \<open>loads\<close> that returns the decoded value, raises JSONDecodeError, or raises another
    exception (RecursionError on deep nesting, ValueError on an integer of too many
    digits).
  \<^item> The input file is the list of its lines, as \<^verbatim>\<open>readline\<close> and iteration return them;
    opening and writing files always succeed.
  \<^item> What the loop prints is collected in the field \<open>stdout\<close> of its state.
\<close>

subsection \<open>Decoded JSON values and the Python operations used on them\<close>

datatype json =
    JNull
  | JBool bool
  | JNum rat
  | JStr string
  | JArr "json list"
  | JObj "(string \<times> json) list"

datatype exn = KeyError | IndexError | TypeError | ZeroDivisionError

definition bindE :: "exn + 'a \<Rightarrow> ('a \<Rightarrow> exn + 'b) \<Rightarrow> exn + 'b" where
  "bindE m f = (case m of Inl e \<Rightarrow> Inl e | Inr v \<Rightarrow> f v)"

text \<open>\<^verbatim>\<open>s.startswith(p)\<close>\<close>

fun startswith :: "string \<Rightarrow> string \<Rightarrow> bool" where
  "startswith s [] = True"
| "startswith [] (p # ps) = False"
| "startswith (c # cs) (p # ps) = (c = p \<and> startswith cs ps)"

text \<open>\<^verbatim>\<open>p in s\<close> on two strings\<close>

fun contains :: "string \<Rightarrow> string \<Rightarrow> bool" where
  "contains [] p = (p = [])"
| "contains (c # cs) p = (startswith (c # cs) p \<or> contains cs p)"

text \<open>\<^verbatim>\<open>s.count(c)\<close> for a single character\<close>

definition count_char :: "string \<Rightarrow> char \<Rightarrow> int" where
  "count_char s c = int (length (filter (\<lambda>x. x = c) s))"

text \<open>The code points below 256 for which \<^verbatim>\<open>str.isspace\<close> holds, and \<^verbatim>\<open>s.strip()\<close>.\<close>

definition py_isspace :: "char \<Rightarrow> bool" where
  "py_isspace c = (c \<in> set [CHR 0x09, CHR 0x0A, CHR 0x0B, CHR 0x0C, CHR 0x0D,
                             CHR 0x1C, CHR 0x1D, CHR 0x1E, CHR 0x1F, CHR 0x20,
                             CHR 0x85, CHR 0xA0])"

definition strip :: "string \<Rightarrow> string" where
  "strip s = rev (dropWhile py_isspace (rev (dropWhile py_isspace s)))"

text \<open>\<^verbatim>\<open>bool(v)\<close>\<close>

fun py_truthy :: "json \<Rightarrow> bool" where
  "py_truthy JNull = False"
| "py_truthy (JBool b) = b"
| "py_truthy (JNum x) = (x \<noteq> 0)"
| "py_truthy (JStr s) = (s \<noteq> [])"
| "py_truthy (JArr xs) = (xs \<noteq> [])"
| "py_truthy (JObj kvs) = (kvs \<noteq> [])"

text \<open>\<^verbatim>\<open>k in v\<close> for a string \<open>k\<close>\<close>

fun py_contains :: "string \<Rightarrow> json \<Rightarrow> exn + bool" where
  "py_contains k (JObj kvs) = Inr (map_of kvs k \<noteq> None)"
| "py_contains k (JArr xs) = Inr (JStr k \<in> set xs)"
| "py_contains k (JStr s) = Inr (contains s k)"
| "py_contains k JNull = Inl TypeError"
| "py_contains k (JBool b) = Inl TypeError"
| "py_contains k (JNum x) = Inl TypeError"

text \<open>\<^verbatim>\<open>v[k]\<close> for a string \<open>k\<close>\<close>

fun py_getitem :: "json \<Rightarrow> string \<Rightarrow> exn + json" where
  "py_getitem (JObj kvs) k = (case map_of kvs k of None \<Rightarrow> Inl KeyError | Some v \<Rightarrow> Inr v)"
| "py_getitem (JArr xs) k = Inl TypeError"
| "py_getitem (JStr s) k = Inl TypeError"
| "py_getitem JNull k = Inl TypeError"
| "py_getitem (JBool b) k = Inl TypeError"
| "py_getitem (JNum x) k = Inl TypeError"

text \<open>\<^verbatim>\<open>v[i]\<close> for the index 0 or 1. The keys of a decoded dict are strings, so an
  integer key is never found.\<close>

fun py_index :: "json \<Rightarrow> nat \<Rightarrow> exn + json" where
  "py_index (JArr xs) i = (if i < length xs then Inr (xs ! i) else Inl IndexError)"
| "py_index (JStr s) i = (if i < length s then Inr (JStr [s ! i]) else Inl IndexError)"
| "py_index (JObj kvs) i = Inl KeyError"
| "py_index JNull i = Inl TypeError"
| "py_index (JBool b) i = Inl TypeError"
| "py_index (JNum x) i = Inl TypeError"

text \<open>The items of \<^verbatim>\<open>for x in v\<close>: the elements of a list, the characters of a string,
  the keys of a dict.\<close>

fun py_iter :: "json \<Rightarrow> exn + json list" where
  "py_iter (JArr xs) = Inr xs"
| "py_iter (JStr s) = Inr (map (\<lambda>c. JStr [c]) s)"
| "py_iter (JObj kvs) = Inr (map (\<lambda>kv. JStr (fst kv)) kvs)"
| "py_iter JNull = Inl TypeError"
| "py_iter (JBool b) = Inl TypeError"
| "py_iter (JNum x) = Inl TypeError"

text \<open>\<^verbatim>\<open>len(v)\<close>\<close>

fun py_len :: "json \<Rightarrow> exn + nat" where
  "py_len (JArr xs) = Inr (length xs)"
| "py_len (JStr s) = Inr (length s)"
| "py_len (JObj kvs) = Inr (length kvs)"
| "py_len JNull = Inl TypeError"
| "py_len (JBool b) = Inl TypeError"
| "py_len (JNum x) = Inl TypeError"

text \<open>The value of \<open>v\<close> as a summand of \<^verbatim>\<open>sum\<close>: a number, or a bool (Python's
  \<^verbatim>\<open>True\<close> is the integer 1).\<close>

fun py_num :: "json \<Rightarrow> exn + rat" where
  "py_num (JNum x) = Inr x"
| "py_num (JBool b) = Inr (if b then 1 else 0)"
| "py_num JNull = Inl TypeError"
| "py_num (JStr s) = Inl TypeError"
| "py_num (JArr xs) = Inl TypeError"
| "py_num (JObj kvs) = Inl TypeError"

text \<open>\<^verbatim>\<open>sum(coord[i] for coord in coordinates)\<close>, from the accumulator \<open>acc\<close>\<close>

fun py_sum_at :: "nat \<Rightarrow> rat \<Rightarrow> json list \<Rightarrow> exn + rat" where
  "py_sum_at i acc [] = Inr acc"
| "py_sum_at i acc (coord # rest) =
     bindE (py_index coord i) (\<lambda>v.
     bindE (py_num v) (\<lambda>x.
     py_sum_at i (acc + x) rest))"

definition py_div :: "rat \<Rightarrow> nat \<Rightarrow> exn + rat" where
  "py_div s n = (if n = 0 then Inl ZeroDivisionError else Inr (s / of_nat n))"

subsection \<open>\<^verbatim>\<open>TRAVIS_BOUNDS\<close> and \<^verbatim>\<open>is_in_travis_county\<close>\<close>

definition north :: rat where "north = 30.8"
definition south :: rat where "south = 30.0"
definition east :: rat where "east = - 97.4"
definition west :: rat where "west = - 98.2"

text \<open>Lines 38 to 47: the centre of the collected points and the test against the box.\<close>

definition center_in_bounds :: "json \<Rightarrow> exn + bool" where
  "center_in_bounds coordinates =
     (if \<not> py_truthy coordinates then Inr False
      else
        bindE (py_iter coordinates) (\<lambda>cs.
        bindE (py_sum_at 0 0 cs) (\<lambda>sum_lng.
        bindE (py_len coordinates) (\<lambda>n.
        bindE (py_div sum_lng n) (\<lambda>center_lng.
        bindE (py_iter coordinates) (\<lambda>cs'.
        bindE (py_sum_at 1 0 cs') (\<lambda>sum_lat.
        bindE (py_len coordinates) (\<lambda>n'.
        bindE (py_div sum_lat n') (\<lambda>center_lat.
        Inr (south \<le> center_lat \<and> center_lat \<le> north \<and>
             west \<le> center_lng \<and> center_lng \<le> east))))))))))"

text \<open>Lines 32 to 34: the loop that extends \<open>coordinates\<close> by \<^verbatim>\<open>polygon[0]\<close>.\<close>

fun extend_rings :: "json list \<Rightarrow> json list \<Rightarrow> exn + json list" where
  "extend_rings coordinates [] = Inr coordinates"
| "extend_rings coordinates (polygon # rest) =
     bindE (py_index polygon 0) (\<lambda>ring.
     bindE (py_iter ring) (\<lambda>pts.
     extend_rings (coordinates @ pts) rest))"

text \<open>The body of the \<^verbatim>\<open>try\<close> block.\<close>

definition check_bounds :: "json \<Rightarrow> exn + bool" where
  "check_bounds feature =
     bindE (py_contains ''geometry'' feature) (\<lambda>has_geometry.
     if \<not> has_geometry then Inr False
     else
       bindE (py_getitem feature ''geometry'') (\<lambda>geometry.
       bindE (py_contains ''coordinates'' geometry) (\<lambda>has_coordinates.
       if \<not> has_coordinates then Inr False
       else
         bindE (py_getitem geometry ''type'') (\<lambda>ty.
         if ty = JStr ''Polygon'' then
           bindE (py_getitem geometry ''coordinates'') (\<lambda>c.
           bindE (py_index c 0) center_in_bounds)
         else if ty = JStr ''MultiPolygon'' then
           bindE (py_getitem geometry ''coordinates'') (\<lambda>c.
           bindE (py_iter c) (\<lambda>polygons.
           bindE (extend_rings [] polygons) (\<lambda>coordinates.
           center_in_bounds (JArr coordinates))))
         else Inr False))))"

definition is_in_travis_county :: "json \<Rightarrow> bool" where
  "is_in_travis_county feature =
     (case check_bounds feature of Inl e \<Rightarrow> False | Inr b \<Rightarrow> b)"

subsection \<open>\<^verbatim>\<open>process_texas_geojson\<close>\<close>

definition tag :: string where
  \<open>tag = ''{"type":"FeatureCollection"''\<close>

definition key :: string where
  \<open>key = ''"features"''\<close>

datatype msg =
    MsgBoundsError exn
  | MsgParseError
  | MsgFound int
  | MsgReachedMax int

record scan_state =
  in_features :: bool
  feature_buffer :: string
  brace_count :: int
  travis_buildings :: "json list"
  total_features :: int
  found_count :: int
  stdout :: "msg list"

definition init_state :: scan_state where
  "init_state = \<lparr> in_features = False, feature_buffer = [], brace_count = 0,
                  travis_buildings = [], total_features = 0, found_count = 0,
                  stdout = [] \<rparr>"

text \<open>How the body of the loop ends: the next line is read, \<^verbatim>\<open>break\<close>, or an
  exception leaves the loop.\<close>

datatype ctl = Continue | Break | Raised

text \<open>What \<^verbatim>\<open>json.loads\<close> does with a text.\<close>

datatype loaded = Loaded json | JSONDecodeError | OtherException

text \<open>\<^verbatim>\<open>f.readline()\<close>: the next line, or the empty string at the end of the file.\<close>

definition readline :: "string list \<Rightarrow> string \<times> string list" where
  "readline f = (case f of [] \<Rightarrow> ([], []) | l # r \<Rightarrow> (l, r))"

text \<open>Lines 73 and 74: \<^verbatim>\<open>while line and '"features"' not in line: line = f.readline()\<close>\<close>

function seek_features :: "string \<Rightarrow> string list \<Rightarrow> string \<times> string list" where
  "seek_features line f =
     (if line \<noteq> [] \<and> \<not> contains line key
      then (case readline f of (l, r) \<Rightarrow> seek_features l r)
      else (line, f))"
  by pat_completeness auto
termination
  by (relation "measure (\<lambda>(line, f). length f + (if line = [] then 0 else 1))")
     (auto simp: readline_def split: list.splits)

declare seek_features.simps [simp del]

text \<open>Lines 93 to 102: what a trimmed line does to the buffer and the brace counter.\<close>

datatype assembled = Skipped | Stopped | Buffered string int

definition brace_delta :: "string \<Rightarrow> int" where
  "brace_delta line = count_char line (CHR ''{'') - count_char line (CHR ''}'')"

definition assemble :: "string \<Rightarrow> int \<Rightarrow> string \<Rightarrow> assembled" where
  "assemble buffer count line =
     (if startswith line ''['' then Skipped
      else if startswith line '']'' then Stopped
      else if startswith line ''{'' then Buffered line (brace_delta line)
      else Buffered (buffer @ line) (count + brace_delta line))"

text \<open>Lines 108 and 109: one trailing comma is removed.\<close>

definition strip_comma :: "string \<Rightarrow> string" where
  "strip_comma s = (if s \<noteq> [] \<and> last s = CHR '','' then butlast s else s)"

text \<open>What \<^verbatim>\<open>is_in_travis_county\<close> prints.\<close>

definition bounds_msgs :: "json \<Rightarrow> msg list" where
  "bounds_msgs feature =
     (case check_bounds feature of Inl e \<Rightarrow> [MsgBoundsError e] | Inr b \<Rightarrow> [])"

text \<open>Lines 105 to 129: a completed buffer is decoded and filtered. \<^verbatim>\<open>break\<close> and the
  \<^verbatim>\<open>continue\<close> of the handler both leave the buffer as it is. The handler catches
  JSONDecodeError only: any other exception of the decoder leaves the loop.\<close>

definition complete_feature ::
  "(string \<Rightarrow> loaded) \<Rightarrow> int \<Rightarrow> scan_state \<Rightarrow> ctl \<times> scan_state" where
  "complete_feature loads max_buildings st =
     (if brace_count st = 0 \<and> feature_buffer st \<noteq> [] then
        (let st1 = st\<lparr>feature_buffer := strip_comma (feature_buffer st)\<rparr> in
         case loads (feature_buffer st1) of
           JSONDecodeError \<Rightarrow> (Continue, st1\<lparr>stdout := stdout st1 @ [MsgParseError]\<rparr>)
         | OtherException \<Rightarrow> (Raised, st1)
         | Loaded feature \<Rightarrow>
             (let st2 = st1\<lparr>total_features := total_features st1 + 1,
                            stdout := stdout st1 @ bounds_msgs feature\<rparr> in
              if is_in_travis_county feature then
                (let st3 = st2\<lparr>travis_buildings := travis_buildings st2 @ [feature],
                               found_count := found_count st2 + 1\<rparr>;
                     st4 = (if found_count st3 mod 100 = 0
                            then st3\<lparr>stdout := stdout st3 @ [MsgFound (found_count st3)]\<rparr>
                            else st3)
                 in if found_count st4 \<ge> max_buildings
                    then (Break, st4\<lparr>stdout := stdout st4 @ [MsgReachedMax max_buildings]\<rparr>)
                    else (Continue, st4\<lparr>feature_buffer := []\<rparr>))
              else (Continue, st2\<lparr>feature_buffer := []\<rparr>)))
      else (Continue, st))"

text \<open>Lines 86 to 129: the body of the \<^verbatim>\<open>for\<close> loop on one line of the file.\<close>

definition scan_line ::
  "(string \<Rightarrow> loaded) \<Rightarrow> int \<Rightarrow> scan_state \<Rightarrow> string \<Rightarrow> ctl \<times> scan_state" where
  "scan_line loads max_buildings st raw =
     (let line = strip raw in
      if contains line key then (Continue, st\<lparr>in_features := True\<rparr>)
      else if in_features st then
        (case assemble (feature_buffer st) (brace_count st) line of
           Skipped \<Rightarrow> (Continue, st)
         | Stopped \<Rightarrow> (Break, st)
         | Buffered b c \<Rightarrow>
             complete_feature loads max_buildings (st\<lparr>feature_buffer := b, brace_count := c\<rparr>))
      else (Continue, st))"

text \<open>The \<^verbatim>\<open>for line in f\<close> loop: how it ended (\<open>Continue\<close> when the file is
  exhausted), the final state and the lines left unread.\<close>

fun scan_lines ::
  "(string \<Rightarrow> loaded) \<Rightarrow> int \<Rightarrow> scan_state \<Rightarrow> string list \<Rightarrow>
     ctl \<times> scan_state \<times> string list" where
  "scan_lines loads max_buildings st [] = (Continue, st, [])"
| "scan_lines loads max_buildings st (raw # f) =
     (case scan_line loads max_buildings st raw of
        (Continue, st') \<Rightarrow> scan_lines loads max_buildings st' f
      | (Break, st') \<Rightarrow> (Break, st', f)
      | (Raised, st') \<Rightarrow> (Raised, st', f))"

text \<open>The ways the function ends: the two format errors, an exception caught by
  \<^verbatim>\<open>except Exception\<close> (lines 134 to 136), nothing found, and the document handed to
  \<^verbatim>\<open>json.dump\<close>; a file is written in the last case only. The last two carry the final
  state of the scan and the lines left unread.\<close>

datatype outcome =
    NotFeatureCollection
  | NoFeaturesArray
  | ProcessingError
  | NoneFound scan_state "string list"
  | Saved json scan_state "string list"

definition output_geojson :: "json list \<Rightarrow> json" where
  "output_geojson buildings =
     JObj [(''type'', JStr ''FeatureCollection''), (''features'', JArr buildings)]"

definition process_texas_geojson ::
  "(string \<Rightarrow> loaded) \<Rightarrow> int \<Rightarrow> string list \<Rightarrow> outcome" where
  "process_texas_geojson loads max_buildings file =
     (case readline file of (line, f) \<Rightarrow>
        if \<not> startswith (strip line) tag then NotFeatureCollection
        else
          (case seek_features line f of (line', f') \<Rightarrow>
             if line' = [] then NoFeaturesArray
             else
               (case scan_lines loads max_buildings init_state f' of (c, st, unread) \<Rightarrow>
                  if c = Raised then ProcessingError
                  else if found_count st = 0 then NoneFound st unread
                  else Saved (output_geojson (travis_buildings st)) st unread)))"

text \<open>The document written to the output file, if one is written.\<close>

definition written :: "outcome \<Rightarrow> json option" where
  "written r = (case r of Saved doc st unread \<Rightarrow> Some doc | _ \<Rightarrow> None)"

subsection \<open>Readable geometries\<close>

text \<open>
  The shape that a geometry must have for the filter to read it to the end: a coordinate
  is a number or a boolean (Python adds \<^verbatim>\<open>True\<close> as 1); a position is a list that begins
  with two coordinates; the first ring of a Polygon is a non-empty list of positions; a
  polygon of a MultiPolygon is a non-empty list whose first entry is a list of positions,
  an empty string or an empty mapping (the last two add no point).
\<close>

fun coordinate :: "json \<Rightarrow> bool" where
  "coordinate (JNum x) = True"
| "coordinate (JBool b) = True"
| "coordinate v = False"

fun position :: "json \<Rightarrow> bool" where
  "position (JArr (x # y # rest)) = (coordinate x \<and> coordinate y)"
| "position p = False"

fun polygon_coordinates :: "json \<Rightarrow> bool" where
  "polygon_coordinates (JArr (JArr pts # rest)) = (pts \<noteq> [] \<and> list_all position pts)"
| "polygon_coordinates c = False"

fun multi_ring :: "json \<Rightarrow> bool" where
  "multi_ring (JArr pts) = list_all position pts"
| "multi_ring (JStr s) = (s = [])"
| "multi_ring (JObj kvs) = (kvs = [])"
| "multi_ring r = False"

fun multi_polygon :: "json \<Rightarrow> bool" where
  "multi_polygon (JArr (ring # rest)) = multi_ring ring"
| "multi_polygon p = False"

fun multipolygon_coordinates :: "json \<Rightarrow> bool" where
  "multipolygon_coordinates (JArr polygons) = list_all multi_polygon polygons"
| "multipolygon_coordinates c = False"

definition readable_geometry :: "json \<Rightarrow> bool" where
  "readable_geometry g =
     (case g of
        JObj gk \<Rightarrow>
          (case map_of gk ''type'' of
             None \<Rightarrow> False
           | Some ty \<Rightarrow>
               (case map_of gk ''coordinates'' of
                  None \<Rightarrow> False
                | Some c \<Rightarrow>
                    if ty = JStr ''Polygon'' then polygon_coordinates c
                    else if ty = JStr ''MultiPolygon'' then multipolygon_coordinates c
                    else False))
      | _ \<Rightarrow> False)"

definition readable_feature :: "(string \<times> json) list \<Rightarrow> bool" where
  "readable_feature kvs =
     (case map_of kvs ''geometry'' of None \<Rightarrow> False | Some g \<Rightarrow> readable_geometry g)"

subsection \<open>What the loop decodes\<close>

text \<open>
  The values that the loop of the source decodes from the lines \<open>f\<close>, in their order,
  when it starts with the given switch, buffer and brace counter: the loop without its
  filter, its counters and its cap. It ends where the loop ends by itself: at a line that
  begins with a closing bracket, at an exception of the decoder, at the end of the file.
\<close>

fun decoded_by_scan ::
  "(string \<Rightarrow> loaded) \<Rightarrow> bool \<Rightarrow> string \<Rightarrow> int \<Rightarrow> string list \<Rightarrow> json list" where
  "decoded_by_scan loads on buffer count [] = []"
| "decoded_by_scan loads on buffer count (raw # f) =
     (let line = strip raw in
      if contains line key then decoded_by_scan loads True buffer count f
      else if on then
        (case assemble buffer count line of
           Skipped \<Rightarrow> decoded_by_scan loads on buffer count f
         | Stopped \<Rightarrow> []
         | Buffered b c \<Rightarrow>
             if c = 0 \<and> b \<noteq> [] then
               (case loads (strip_comma b) of
                  JSONDecodeError \<Rightarrow> decoded_by_scan loads on (strip_comma b) c f
                | OtherException \<Rightarrow> []
                | Loaded feature \<Rightarrow> feature # decoded_by_scan loads on [] c f)
             else decoded_by_scan loads on b c f)
      else decoded_by_scan loads on buffer count f)"

definition kept_by_scan :: "(string \<Rightarrow> loaded) \<Rightarrow> scan_state \<Rightarrow> string list \<Rightarrow> json list" where
  "kept_by_scan loads st f =
     filter is_in_travis_county
       (decoded_by_scan loads (in_features st) (feature_buffer st) (brace_count st) f)"

subsection \<open>Sample inputs\<close>

text \<open>Three feature texts and what \<^verbatim>\<open>json.loads\<close> returns for them: two polygons whose
  centre is inside the box and one whose centre is east of it. The sample decoder knows
  these three texts and reports a decode error on every other text; below it is applied
  to these three and to texts that are not JSON.\<close>

definition text_a :: string where
  \<open>text_a = ''{"geometry":{"type":"Polygon","coordinates":[[[-98,30.5]]]}}''\<close>

definition feat_a :: json where
  "feat_a = JObj [(''geometry'', JObj [(''type'', JStr ''Polygon''),
       (''coordinates'', JArr [JArr [JArr [JNum (- 98), JNum 30.5]]])])]"

definition text_b :: string where
  \<open>text_b = ''{"geometry":{"type":"Polygon","coordinates":[[[-97.5,30.25]]]}}''\<close>

definition feat_b :: json where
  "feat_b = JObj [(''geometry'', JObj [(''type'', JStr ''Polygon''),
       (''coordinates'', JArr [JArr [JArr [JNum (- 97.5), JNum 30.25]]])])]"

definition text_out :: string where
  \<open>text_out = ''{"geometry":{"type":"Polygon","coordinates":[[[-95,30.5]]]}}''\<close>

definition feat_out :: json where
  "feat_out = JObj [(''geometry'', JObj [(''type'', JStr ''Polygon''),
       (''coordinates'', JArr [JArr [JArr [JNum (- 95), JNum 30.5]]])])]"

definition sample_loads :: "string \<Rightarrow> loaded" where
  "sample_loads s =
     (case map_of [(text_a, feat_a), (text_b, feat_b), (text_out, feat_out)] s of
        None \<Rightarrow> JSONDecodeError
      | Some v \<Rightarrow> Loaded v)"

text \<open>A file in the documented format: one feature on each line of the array.\<close>

definition file_doc :: "string list" where
  \<open>file_doc = [''{"type":"FeatureCollection",\<newline>'',
                ''"features": [\<newline>'',
                ''{"geometry":{"type":"Polygon","coordinates":[[[-98,30.5]]]}}\<newline>'',
                '']\<newline>'',
                ''}\<newline>'']\<close>

text \<open>The same format with the type tag and the features key on the first line.\<close>

definition file_head :: "string list" where
  \<open>file_head = [''{"type":"FeatureCollection","features":[\<newline>'',
                 ''{"geometry":{"type":"Polygon","coordinates":[[[-98,30.5]]]}},\<newline>'',
                 ''{"geometry":{"type":"Polygon","coordinates":[[[-97.5,30.25]]]}}\<newline>'',
                 '']}\<newline>'']\<close>

text \<open>A collection whose name is the word features: the key text occurs on two lines.\<close>

definition file_named :: "string list" where
  \<open>file_named = [''{"type":"FeatureCollection",\<newline>'',
                  ''"name":"features",\<newline>'',
                  ''"features":[\<newline>'',
                  ''{"geometry":{"type":"Polygon","coordinates":[[[-98,30.5]]]}},\<newline>'',
                  ''{"geometry":{"type":"Polygon","coordinates":[[[-97.5,30.25]]]}}\<newline>'',
                  '']}\<newline>'']\<close>

text \<open>The same collection with two blanks before the type tag and a single feature.\<close>

definition file_indented :: "string list" where
  \<open>file_indented = [''  {"type":"FeatureCollection",\<newline>'',
                     ''"name":"features",\<newline>'',
                     ''"features":[\<newline>'',
                     ''{"geometry":{"type":"Polygon","coordinates":[[[-97.5,30.25]]]}}\<newline>'',
                     '']}\<newline>'']\<close>

text \<open>A file that is not a feature collection, and a collection without a features key.\<close>

definition file_other :: "string list" where
  \<open>file_other = [''{"type":"Topology",\<newline>'', ''"features":[\<newline>'', '']}\<newline>'']\<close>

definition file_no_key :: "string list" where
  \<open>file_no_key = [''{"type":"FeatureCollection",\<newline>'', ''"bbox":[0,0,1,1]\<newline>'', ''}\<newline>'']\<close>

text \<open>A feature split over two lines, the second one beginning with a bracket.\<close>

definition file_split :: "string list" where
  \<open>file_split = [''{"type":"FeatureCollection",\<newline>'',
                  ''"name":"features",\<newline>'',
                  ''"features":[\<newline>'',
                  ''{"geometry":{"type":"Polygon","coordinates":\<newline>'',
                  ''[[[-98,30.5]]]}}\<newline>'',
                  '']}\<newline>'']\<close>

text \<open>The state of the scan after the fourth line of \<open>file_split\<close>.\<close>

definition st_open :: scan_state where
  \<open>st_open = init_state\<lparr>in_features := True,
      feature_buffer := ''{"geometry":{"type":"Polygon","coordinates":'', brace_count := 2\<rparr>\<close>


text \<open>The state that the handler of JSONDecodeError leaves: the buffer has lost its
  trailing comma and is kept, one message is printed.\<close>

definition after_decode_error :: "scan_state \<Rightarrow> scan_state" where
  "after_decode_error st =
     st\<lparr>feature_buffer := strip_comma (feature_buffer st), stdout := stdout st @ [MsgParseError]\<rparr>"


text \<open>A file in the documented format whose second feature line is not JSON.\<close>

definition file_bad_middle :: "string list" where
  \<open>file_bad_middle = [''{"type":"FeatureCollection",\<newline>'',
                       ''"features": [\<newline>'',
                       ''{"geometry":{"type":"Polygon","coordinates":[[[-98,30.5]]]}},\<newline>'',
                       ''{"geometry":},\<newline>'',
                       ''{"geometry":{"type":"Polygon","coordinates":[[[-97.5,30.25]]]}}\<newline>'',
                       '']\<newline>'',
                       ''}\<newline>'']\<close>

text \<open>A collection named features with three features: two inside the box, between them
  one outside.\<close>

definition file_three :: "string list" where
  \<open>file_three = [''{"type":"FeatureCollection",\<newline>'',
                  ''"name":"features",\<newline>'',
                  ''"features":[\<newline>'',
                  ''{"geometry":{"type":"Polygon","coordinates":[[[-97.5,30.25]]]}},\<newline>'',
                  ''{"geometry":{"type":"Polygon","coordinates":[[[-95,30.5]]]}},\<newline>'',
                  ''{"geometry":{"type":"Polygon","coordinates":[[[-98,30.5]]]}}\<newline>'',
                  '']}\<newline>'']\<close>

text \<open>
  Sample features with a malformed geometry. The first is the value of
  \<^verbatim>\<open>{"geometry":{"type":"MultiPolygon","coordinates":[[{}],[[[-98,30.5]]]]}}\<close>: the ring
  of its first polygon is an empty mapping. The second is the value of
  \<^verbatim>\<open>{"geometry":{"type":"Polygon","coordinates":[[[-98,60.5],[-98,true]]]}}\<close>: a latitude
  is a boolean. The third has a latitude given as a string.
\<close>

definition feat_empty_ring :: json where
  "feat_empty_ring = JObj [(''geometry'', JObj [(''type'', JStr ''MultiPolygon''),
     (''coordinates'', JArr [JArr [JObj []], JArr [JArr [JArr [JNum (- 98), JNum 30.5]]]])])]"

definition feat_bool_lat :: json where
  "feat_bool_lat = JObj [(''geometry'', JObj [(''type'', JStr ''Polygon''),
     (''coordinates'', JArr [JArr [JArr [JNum (- 98), JNum 60.5], JArr [JNum (- 98), JBool True]]])])]"

definition feat_text_lat :: json where
  "feat_text_lat = JObj [(''geometry'', JObj [(''type'', JStr ''Polygon''),
     (''coordinates'', JArr [JArr [JArr [JNum (- 98), JStr ''30.5'']]])])]"

section \<open>Properties\<close>

lemmas str_eval = tag_def key_def strip_def py_isspace_def readline_def

lemmas scan_eval = scan_line_def assemble_def complete_feature_def brace_delta_def
  count_char_def strip_comma_def init_state_def

lemmas bounds_eval = is_in_travis_county_def check_bounds_def bindE_def center_in_bounds_def
  py_div_def north_def south_def east_def west_def bounds_msgs_def

lemmas sample_eval = sample_loads_def text_a_def text_b_def text_out_def
  feat_a_def feat_b_def feat_out_def

subsection \<open>The seek loop\<close>

lemma seek_features_empty: "seek_features [] f = ([], f)"
  by (subst seek_features.simps) simp

lemma seek_features_key: "contains line key \<Longrightarrow> seek_features line f = (line, f)"
  by (subst seek_features.simps) simp

lemma seek_features_step:
  "line \<noteq> [] \<Longrightarrow> \<not> contains line key \<Longrightarrow>
   seek_features line f = seek_features (fst (readline f)) (snd (readline f))"
  by (subst seek_features.simps) (simp split: prod.splits)

lemma seek_features_no_key:
  "\<forall>l\<in>set (line # f). \<not> contains l key \<Longrightarrow> fst (seek_features line f) = []"
proof (induction f arbitrary: line)
  case Nil
  then show ?case
    by (cases "line = []") (simp_all add: seek_features_empty seek_features_step readline_def)
next
  case (Cons l r)
  then have "fst (seek_features l r) = []" by simp
  with Cons.prems show ?case
    by (cases "line = []") (simp_all add: seek_features_empty seek_features_step readline_def)
qed

subsection \<open>The scan starts switched off\<close>

text \<open>
  Claim C1: every feature whose centre is strictly inside the box is included in the output.
  The code does not do this. In the file \<open>file_doc\<close> the only feature has its centre at
  longitude -98 and latitude 30.5, strictly inside the box, and \<^verbatim>\<open>is_in_travis_county\<close>
  accepts it; the run reads every line, decodes nothing and keeps nothing, because
  \<open>in_features\<close> is still \<open>False\<close> when the line of the feature is read.
\<close>

theorem C1_in_region_feature_not_kept:
  "west < - 98 \<and> - 98 < east \<and> south < 30.5 \<and> 30.5 < north \<and>
   sample_loads text_a = Loaded feat_a \<and> is_in_travis_county feat_a \<and>
   process_texas_geojson sample_loads 5000 file_doc = NoneFound init_state []"
  by (simp add: process_texas_geojson_def file_doc_def seek_features.simps
        str_eval scan_eval bounds_eval sample_eval)

text \<open>
  Claim C2: once the seek loop has found the line with the features key, the array scan is
  applied to each following line. The code does not do this. In \<open>file_head\<close> the seek loop
  stops at the first line; the body of the loop then leaves the state as it is on the line
  of the first feature, and the run ends with no feature decoded, all lines read.
\<close>

theorem C2_array_scan_not_applied:
  "seek_features (hd file_head) (tl file_head) = (hd file_head, tl file_head) \<and>
   scan_line sample_loads 5000 init_state (file_head ! 1) = (Continue, init_state) \<and>
   process_texas_geojson sample_loads 5000 file_head = NoneFound init_state []"
  by (simp add: process_texas_geojson_def file_head_def seek_features.simps
        str_eval scan_eval bounds_eval sample_eval)

subsection \<open>The cap\<close>

text \<open>
  Claim C3: the number of kept features never exceeds the maximum. The code does not do
  this for the maximum 0: the counter is compared with the maximum only after a feature
  has been appended. On \<open>file_named\<close> with \<open>max_buildings = 0\<close> one feature is written; the
  second feature and the closing line stay unread.
\<close>

theorem C3_cap_zero_keeps_one:
  "process_texas_geojson sample_loads 0 file_named =
     Saved (output_geojson [feat_a])
       (init_state\<lparr>in_features := True, feature_buffer := text_a, travis_buildings := [feat_a],
          total_features := 1, found_count := 1, stdout := [MsgReachedMax 0]\<rparr>)
       (drop 4 file_named)"
  by (simp add: process_texas_geojson_def file_named_def seek_features.simps
        str_eval scan_eval bounds_eval sample_eval)

subsection \<open>Format errors\<close>

text \<open>
  Claim C7 as stated: a first line that does not begin with the type tag is a format
  error. This fails: the first line of \<open>file_indented\<close> begins with two blanks, not with
  the tag, and the run writes a document.
\<close>

theorem C7_counterexample:
  "\<not> startswith (hd file_indented) tag \<and>
   written (process_texas_geojson sample_loads 5000 file_indented) =
     Some (output_geojson [feat_b])"
  by (simp add: process_texas_geojson_def file_indented_def seek_features.simps written_def
        str_eval scan_eval bounds_eval sample_eval)

text \<open>
  Claim C7, amended: if the first line, trimmed of surrounding whitespace, does not begin
  with the type tag, the run ends with the first format error; if no line of the file
  contains the features key, it ends with one of the two format errors; after a format
  error no document is written.
\<close>

theorem C7_format_errors:
  "(\<not> startswith (strip (fst (readline inp))) tag \<longrightarrow>
      process_texas_geojson loads max_buildings inp = NotFeatureCollection) \<and>
   ((\<forall>l\<in>set inp. \<not> contains l key) \<longrightarrow>
      process_texas_geojson loads max_buildings inp \<in> {NotFeatureCollection, NoFeaturesArray}) \<and>
   written NotFeatureCollection = None \<and> written NoFeaturesArray = None"
proof (intro conjI impI)
  obtain line f where rl: "readline inp = (line, f)" by (cases "readline inp")
  {
    assume "\<not> startswith (strip (fst (readline inp))) tag"
    with rl show "process_texas_geojson loads max_buildings inp = NotFeatureCollection"
      by (simp add: process_texas_geojson_def)
  next
    assume nk: "\<forall>l\<in>set inp. \<not> contains l key"
    have "fst (seek_features line f) = []"
    proof (cases inp)
      case Nil
      with rl show ?thesis by (simp add: seek_features_empty readline_def)
    next
      case (Cons a as)
      with rl nk show ?thesis by (intro seek_features_no_key) (auto simp: readline_def)
    qed
    then show "process_texas_geojson loads max_buildings inp \<in> {NotFeatureCollection, NoFeaturesArray}"
      using rl by (cases "seek_features line f") (simp add: process_texas_geojson_def)
  }
qed (simp_all add: written_def)

theorem C7_format_errors_witness:
  "\<not> startswith (strip (fst (readline file_other))) tag \<and>
   process_texas_geojson sample_loads 5000 file_other = NotFeatureCollection \<and>
   list_all (\<lambda>l. \<not> contains l key) file_no_key \<and>
   process_texas_geojson sample_loads 5000 file_no_key = NoFeaturesArray"
proof -
  have a: "\<not> startswith (strip (fst (readline file_other))) tag"
    by (simp add: file_other_def str_eval)
  have b: "\<forall>l\<in>set file_no_key. \<not> contains l key"
    by (simp add: file_no_key_def str_eval)
  from C7_format_errors[of file_other sample_loads 5000] a
  have "process_texas_geojson sample_loads 5000 file_other = NotFeatureCollection" by blast
  moreover from C7_format_errors[of file_no_key sample_loads 5000] b
  have "process_texas_geojson sample_loads 5000 file_no_key \<in> {NotFeatureCollection, NoFeaturesArray}"
    by blast
  moreover have "process_texas_geojson sample_loads 5000 file_no_key \<noteq> NotFeatureCollection"
    by (simp add: process_texas_geojson_def file_no_key_def seek_features.simps str_eval)
  ultimately show ?thesis using a b by (simp add: list_all_iff)
qed

subsection \<open>The body of the loop on one line\<close>

lemma startswith_brace_not_bracket:
  "startswith s ''{'' \<Longrightarrow> \<not> startswith s ''['' \<and> \<not> startswith s '']''"
  by (cases s) auto

lemma scan_line_open_brace:
  assumes "in_features st" and "\<not> contains (strip raw) key" and "startswith (strip raw) ''{''"
  shows "scan_line loads max_buildings st raw =
           complete_feature loads max_buildings
             (st\<lparr>feature_buffer := strip raw, brace_count := brace_delta (strip raw)\<rparr>)"
  using assms startswith_brace_not_bracket[of "strip raw"]
  by (simp add: scan_line_def assemble_def Let_def)


lemma complete_feature_decode_error:
  assumes "brace_count st = 0" and "feature_buffer st \<noteq> []"
    and "loads (strip_comma (feature_buffer st)) = JSONDecodeError"
  shows "complete_feature loads max_buildings st = (Continue, after_decode_error st)"
  using assms by (simp add: complete_feature_def after_decode_error_def)

lemma scan_line_in_features:
  "in_features st \<Longrightarrow> in_features (snd (scan_line loads max_buildings st raw))"
  by (auto simp: scan_line_def complete_feature_def Let_def split: assembled.splits loaded.splits)

text \<open>
  Claim C9 as stated: only a line that is exactly an opening bracket is skipped, only a
  line that is exactly a closing bracket ends the scan, and a line that begins with a
  bracket and carries more text is appended to the buffer. This fails on \<open>file_split\<close>:
  its fifth line begins with an opening bracket and is skipped, the buffer staying as it
  was, and its sixth line begins with a closing bracket and ends the scan; the feature is
  never completed and nothing is written.
\<close>

theorem C9_counterexample:
  \<open>strip (file_split ! 4) \<noteq> ''['' \<and> \<not> startswith (strip (file_split ! 4)) ''{'' \<and>
   scan_line sample_loads 5000 st_open (file_split ! 4) = (Continue, st_open) \<and>
   strip (file_split ! 5) \<noteq> '']'' \<and> \<not> startswith (strip (file_split ! 5)) ''{'' \<and>
   scan_line sample_loads 5000 st_open (file_split ! 5) = (Break, st_open) \<and>
   process_texas_geojson sample_loads 5000 file_split = NoneFound st_open []\<close>
  by (simp add: process_texas_geojson_def file_split_def st_open_def seek_features.simps
        str_eval scan_eval bounds_eval sample_eval)

text \<open>
  Claim C9, amended: while the scan is switched on, on a trimmed line that does not
  contain the features key: every line that begins with an opening bracket is skipped and
  every line that begins with a closing bracket ends the scan, whatever follows the
  bracket; a line that begins with none of the two brackets and not with an opening brace
  is appended verbatim to the buffer, the brace counter is increased by the number of its
  opening braces minus the number of its closing braces, and the completion test follows.
\<close>

theorem C9_bracket_lines:
  assumes "in_features st" and "\<not> contains (strip raw) key"
  shows "(startswith (strip raw) ''['' \<longrightarrow>
            scan_line loads max_buildings st raw = (Continue, st)) \<and>
         (startswith (strip raw) '']'' \<longrightarrow>
            scan_line loads max_buildings st raw = (Break, st)) \<and>
         (\<not> startswith (strip raw) ''['' \<and> \<not> startswith (strip raw) '']'' \<and>
          \<not> startswith (strip raw) ''{'' \<longrightarrow>
            scan_line loads max_buildings st raw =
              complete_feature loads max_buildings
                (st\<lparr>feature_buffer := feature_buffer st @ strip raw,
                    brace_count := brace_count st +
                      (count_char (strip raw) (CHR ''{'') - count_char (strip raw) (CHR ''}''))\<rparr>))"
proof -
  have "startswith (strip raw) '']'' \<Longrightarrow> \<not> startswith (strip raw) ''[''"
    by (cases "strip raw") auto
  with assms show ?thesis
    by (auto simp: scan_line_def assemble_def brace_delta_def Let_def)
qed

theorem C9_bracket_lines_witness:
  \<open>scan_line sample_loads 5000 st_open ''  [1, 2],\<newline>'' = (Continue, st_open) \<and>
   scan_line sample_loads 5000 st_open ''],\<newline>'' = (Break, st_open) \<and>
   scan_line sample_loads 5000 st_open ''  0,\<newline>'' =
     (Continue, st_open\<lparr>feature_buffer := ''{"geometry":{"type":"Polygon","coordinates":0,''\<rparr>)\<close>
proof -
  have inf: "in_features st_open" by (simp add: st_open_def init_state_def)
  have k1: \<open>\<not> contains (strip ''  [1, 2],\<newline>'') key\<close>
    and k2: \<open>\<not> contains (strip ''],\<newline>'') key\<close>
    and k3: \<open>\<not> contains (strip ''  0,\<newline>'') key\<close>
    by (simp_all add: str_eval)
  have s1: \<open>startswith (strip ''  [1, 2],\<newline>'') ''[''\<close>
    and s2: \<open>startswith (strip ''],\<newline>'') '']''\<close>
    and s3: \<open>\<not> startswith (strip ''  0,\<newline>'') ''['' \<and> \<not> startswith (strip ''  0,\<newline>'') '']'' \<and>
             \<not> startswith (strip ''  0,\<newline>'') ''{''\<close>
    by (simp_all add: str_eval)
  from C9_bracket_lines[OF inf k1, of sample_loads 5000] s1
  have a: \<open>scan_line sample_loads 5000 st_open ''  [1, 2],\<newline>'' = (Continue, st_open)\<close>
    by blast
  from C9_bracket_lines[OF inf k2, of sample_loads 5000] s2
  have b: \<open>scan_line sample_loads 5000 st_open ''],\<newline>'' = (Break, st_open)\<close>
    by blast
  from C9_bracket_lines[OF inf k3, of sample_loads 5000] s3
  have \<open>scan_line sample_loads 5000 st_open ''  0,\<newline>'' =
          complete_feature sample_loads 5000
            (st_open\<lparr>feature_buffer := feature_buffer st_open @ strip ''  0,\<newline>'',
               brace_count := brace_count st_open +
                 (count_char (strip ''  0,\<newline>'') (CHR ''{'') -
                  count_char (strip ''  0,\<newline>'') (CHR ''}''))\<rparr>)\<close>
    by blast
  also have \<open>\<dots> = (Continue, st_open\<lparr>feature_buffer := ''{"geometry":{"type":"Polygon","coordinates":0,''\<rparr>)\<close>
    by (simp add: st_open_def str_eval scan_eval sample_eval)
  finally show ?thesis using a b by simp
qed

subsection \<open>Decode failures\<close>






text \<open>
  Claim C8: a feature text that fails to decode, between two well-formed features, costs
  only that feature, with a diagnostic, and both neighbours are evaluated. The code does
  not do this. In \<open>file_bad_middle\<close>, a file in the documented format, the line between the
  two features is not JSON; both features decode to values that the filter accepts; the
  run reads every line, decodes nothing, prints no diagnostic and keeps nothing, because
  the scan is never switched on.
\<close>

theorem C8_neighbours_not_evaluated:
  "sample_loads text_a = Loaded feat_a \<and> is_in_travis_county feat_a \<and>
   sample_loads text_b = Loaded feat_b \<and> is_in_travis_county feat_b \<and>
   process_texas_geojson sample_loads 5000 file_bad_middle = NoneFound init_state [] \<and>
   total_features init_state = 0 \<and> stdout init_state = []"
  by (simp add: process_texas_geojson_def file_bad_middle_def seek_features.simps
        str_eval scan_eval bounds_eval sample_eval)

text \<open>
  Once the scan is switched on, a decode error is isolated: a line that begins with an
  opening brace, has as many closing as opening braces and raises JSONDecodeError adds
  its diagnostic and nothing else, when the next line begins with an opening brace.
\<close>

lemma decode_error_isolated:
  assumes "in_features st"
    and "startswith (strip bad) ''{''" and "\<not> contains (strip bad) key"
    and "brace_delta (strip bad) = 0" and "loads (strip_comma (strip bad)) = JSONDecodeError"
    and "startswith (strip nxt) ''{''" and "\<not> contains (strip nxt) key"
  shows "scan_lines loads max_buildings st (bad # nxt # rest) =
           scan_lines loads max_buildings (st\<lparr>stdout := stdout st @ [MsgParseError]\<rparr>) (nxt # rest)"
proof -
  let ?b = "st\<lparr>feature_buffer := strip bad, brace_count := brace_delta (strip bad)\<rparr>"
  have ne: "strip bad \<noteq> []" using assms(2) by auto
  have "scan_line loads max_buildings st bad = complete_feature loads max_buildings ?b"
    by (rule scan_line_open_brace[OF assms(1) assms(3) assms(2)])
  also have "\<dots> = (Continue, after_decode_error ?b)"
    using assms(4,5) ne complete_feature_decode_error[of ?b loads max_buildings] by simp
  finally have bad: "scan_line loads max_buildings st bad = (Continue, after_decode_error ?b)" .
  have inf2: "in_features (after_decode_error ?b)"
    using assms(1) by (simp add: after_decode_error_def)
  have inf3: "in_features (st\<lparr>stdout := stdout st @ [MsgParseError]\<rparr>)"
    using assms(1) by simp
  have "scan_line loads max_buildings (after_decode_error ?b) nxt =
        scan_line loads max_buildings (st\<lparr>stdout := stdout st @ [MsgParseError]\<rparr>) nxt"
    unfolding scan_line_open_brace[OF inf2 assms(7) assms(6)]
      scan_line_open_brace[OF inf3 assms(7) assms(6)]
    by (simp add: after_decode_error_def)
  with bad show ?thesis by simp
qed

text \<open>
  An exception of the decoder other than JSONDecodeError is not caught inside the loop: it
  ends the loop, and the run ends without a file.
\<close>

lemma other_exception_raised:
  assumes "in_features st"
    and "startswith (strip raw) ''{''" and "\<not> contains (strip raw) key"
    and "brace_delta (strip raw) = 0" and "loads (strip_comma (strip raw)) = OtherException"
  shows "fst (scan_lines loads max_buildings st (raw # f)) = Raised"
proof -
  let ?b = "st\<lparr>feature_buffer := strip raw, brace_count := brace_delta (strip raw)\<rparr>"
  have ne: "strip raw \<noteq> []" using assms(2) by auto
  have "scan_line loads max_buildings st raw = complete_feature loads max_buildings ?b"
    by (rule scan_line_open_brace[OF assms(1) assms(3) assms(2)])
  also have "\<dots> = (Raised, ?b\<lparr>feature_buffer := strip_comma (strip raw)\<rparr>)"
    using assms(4,5) ne by (simp add: complete_feature_def)
  finally show ?thesis by simp
qed

lemma raised_no_file:
  assumes "process_texas_geojson loads max_buildings inp = r"
    and "readline inp = (line, f)" and "startswith (strip line) tag"
    and "seek_features line f = (line', f')" and "line' \<noteq> []"
    and "fst (scan_lines loads max_buildings init_state f') = Raised"
  shows "r = ProcessingError \<and> written r = None"
  using assms by (auto simp: process_texas_geojson_def written_def split: prod.splits)

section \<open>The geometry filter\<close>

lemma bindE_Inl [simp]: "bindE (Inl e) f = Inl e"
  by (simp add: bindE_def)

lemma bindE_Inr [simp]: "bindE (Inr v) f = f v"
  by (simp add: bindE_def)

lemma bindE_eq_Inr:
  "bindE m f = Inr y \<longleftrightarrow> (\<exists>v. m = Inr v \<and> f v = Inr y)"
  by (cases m) simp_all

lemma is_in_check_bounds: "is_in_travis_county f \<longleftrightarrow> check_bounds f = Inr True"
  by (simp add: is_in_travis_county_def split: sum.splits)

lemma py_num_coordinate: "py_num v = Inr x \<Longrightarrow> coordinate v"
  by (cases v) simp_all

lemma py_sum_at_coordinates:
  "py_sum_at i acc cs = Inr s \<Longrightarrow>
   list_all (\<lambda>p. \<exists>v. py_index p i = Inr v \<and> coordinate v) cs"
proof (induction cs arbitrary: acc)
  case Nil
  then show ?case by simp
next
  case (Cons p cs)
  then show ?case
    by (auto simp: bindE_eq_Inr dest: py_num_coordinate)
qed

lemma position_index:
  assumes "py_index p 0 = Inr v" and "coordinate v"
    and "py_index p (Suc 0) = Inr w" and "coordinate w"
  shows "position p"
proof (cases p)
  case (JArr xs)
  with assms obtain x y rest where "xs = x # y # rest"
    by (cases xs; cases "tl xs") (auto split: if_splits)
  with JArr assms show ?thesis by simp
next
  case (JStr s)
  with assms show ?thesis by (auto split: if_splits)
qed (use assms in auto)

lemma not_position_string [simp]: "\<not> position (JStr s)"
  by simp

lemma center_in_bounds_positions:
  assumes "center_in_bounds c = Inr True"
  shows "\<exists>cs. py_iter c = Inr cs \<and> cs \<noteq> [] \<and> list_all position cs"
proof -
  from assms have t: "py_truthy c"
    by (auto simp: center_in_bounds_def split: if_splits)
  with assms obtain cs s0 s1 where it: "py_iter c = Inr cs"
    and s0: "py_sum_at 0 0 cs = Inr s0" and s1: "py_sum_at (Suc 0) 0 cs = Inr s1"
    by (auto simp: center_in_bounds_def bindE_eq_Inr)
  from t it have ne: "cs \<noteq> []" by (cases c) auto
  have "position p" if "p \<in> set cs" for p
    using py_sum_at_coordinates[OF s0] py_sum_at_coordinates[OF s1] that position_index[of p]
    by (auto simp: list_all_iff)
  with it ne show ?thesis by (auto simp: list_all_iff)
qed

lemma iter_positions_list:
  assumes "py_iter ring = Inr ps" and "list_all position ps"
  shows "multi_ring ring \<and> (ps \<noteq> [] \<longrightarrow> ring = JArr ps)"
proof (cases ring)
  case (JStr s)
  with assms show ?thesis by (cases s) auto
next
  case (JObj kvs)
  with assms show ?thesis by (cases kvs) auto
qed (use assms in auto)

lemma polygon_needs_ring:
  assumes "bindE (py_index c 0) center_in_bounds = Inr True"
  shows "polygon_coordinates c"
proof -
  from assms obtain ring where ix: "py_index c 0 = Inr ring"
    and cb: "center_in_bounds ring = Inr True"
    by (auto simp: bindE_eq_Inr)
  from center_in_bounds_positions[OF cb] obtain cs where it: "py_iter ring = Inr cs"
    and ne: "cs \<noteq> []" and pos: "list_all position cs"
    by blast
  from iter_positions_list[OF it pos] ne have ring: "ring = JArr cs" by simp
  show ?thesis
  proof (cases c)
    case (JArr xs)
    with ix obtain rest where "xs = ring # rest" by (cases xs) (auto split: if_splits)
    with JArr ring ne pos show ?thesis by simp
  next
    case (JStr s)
    with ix have "ring = JStr [s ! 0]" by (auto split: if_splits)
    with ring show ?thesis by simp
  qed (use ix in auto)
qed

lemma extend_rings_items:
  "extend_rings acc polygons = Inr cs \<Longrightarrow>
   set acc \<subseteq> set cs \<and>
   (\<forall>p\<in>set polygons. \<exists>ring pts. py_index p 0 = Inr ring \<and> py_iter ring = Inr pts \<and>
       set pts \<subseteq> set cs)"
proof (induction polygons arbitrary: acc)
  case Nil
  then show ?case by simp
next
  case (Cons p polygons)
  from Cons.prems obtain ring pts where ix: "py_index p 0 = Inr ring" and it: "py_iter ring = Inr pts"
    and rest: "extend_rings (acc @ pts) polygons = Inr cs"
    by (auto simp: bindE_eq_Inr)
  from Cons.IH[OF rest] ix it show ?case by auto
qed

lemma multipolygon_needs_rings:
  assumes "bindE (py_iter c) (\<lambda>polygons.
             bindE (extend_rings [] polygons) (\<lambda>coordinates.
             center_in_bounds (JArr coordinates))) = Inr True"
  shows "multipolygon_coordinates c"
proof -
  from assms obtain polygons cs where it: "py_iter c = Inr polygons"
    and ex: "extend_rings [] polygons = Inr cs"
    and cb: "center_in_bounds (JArr cs) = Inr True"
    by (auto simp: bindE_eq_Inr)
  from center_in_bounds_positions[OF cb] have ne: "cs \<noteq> []" and pos: "\<forall>q\<in>set cs. position q"
    by (auto simp: list_all_iff)
  have poly: "multi_polygon p \<and> (\<exists>ring rest. p = JArr (ring # rest))" if p: "p \<in> set polygons" for p
  proof -
    from extend_rings_items[OF ex] p obtain ring ps where ix: "py_index p 0 = Inr ring"
      and ir: "py_iter ring = Inr ps" and sub: "set ps \<subseteq> set cs"
      by blast
    from sub pos have "list_all position ps" by (auto simp: list_all_iff)
    from iter_positions_list[OF ir this] have mr: "multi_ring ring" by simp
    show ?thesis
    proof (cases p)
      case (JArr xs)
      with ix obtain rest where "xs = ring # rest" by (cases xs) (auto split: if_splits)
      with JArr mr show ?thesis by simp
    next
      case (JStr s)
      with ix have "ring = JStr [s ! 0]" by (auto split: if_splits)
      with mr show ?thesis by simp
    qed (use ix in auto)
  qed
  show ?thesis
  proof (cases c)
    case (JArr xs)
    with it poly show ?thesis by (auto simp: list_all_iff)
  next
    case (JStr s)
    show ?thesis
    proof (cases s)
      case Nil
      with JStr it ex ne show ?thesis by simp
    next
      case (Cons ch t)
      with JStr it have "JStr [ch] \<in> set polygons" by auto
      from poly[OF this] show ?thesis by simp
    qed
  next
    case (JObj kvs)
    show ?thesis
    proof (cases kvs)
      case Nil
      with JObj it ex ne show ?thesis by simp
    next
      case (Cons kv t)
      with JObj it have "JStr (fst kv) \<in> set polygons" by auto
      from poly[OF this] show ?thesis by simp
    qed
  qed (use it in auto)
qed

lemma check_bounds_geometry:
  assumes "map_of kvs ''geometry'' = Some (JObj g)"
    and "map_of g ''type'' = Some ty" and "map_of g ''coordinates'' = Some c"
  shows "check_bounds (JObj kvs) =
          (if ty = JStr ''Polygon'' then bindE (py_index c 0) center_in_bounds
           else if ty = JStr ''MultiPolygon'' then
             bindE (py_iter c) (\<lambda>polygons.
             bindE (extend_rings [] polygons) (\<lambda>coordinates.
             center_in_bounds (JArr coordinates)))
           else Inr False)"
  using assms by (simp add: check_bounds_def)

lemma in_region_readable:
  assumes "is_in_travis_county (JObj kvs)"
  shows "readable_feature kvs"
proof -
  from assms have cb: "check_bounds (JObj kvs) = Inr True"
    by (simp add: is_in_check_bounds)
  then obtain g where g: "map_of kvs ''geometry'' = Some g"
    by (cases "map_of kvs ''geometry''") (auto simp: check_bounds_def)
  from cb g obtain gk where gk: "g = JObj gk"
    by (cases g) (auto simp: check_bounds_def split: if_splits)
  from cb g gk obtain c where c: "map_of gk ''coordinates'' = Some c"
    by (cases "map_of gk ''coordinates''") (auto simp: check_bounds_def)
  from cb g gk c obtain ty where ty: "map_of gk ''type'' = Some ty"
    by (cases "map_of gk ''type''") (auto simp: check_bounds_def)
  from g gk have g': "map_of kvs ''geometry'' = Some (JObj gk)" by simp
  note eq = check_bounds_geometry[OF g' ty c]
  have "if ty = JStr ''Polygon'' then polygon_coordinates c
        else if ty = JStr ''MultiPolygon'' then multipolygon_coordinates c else False"
  proof (cases "ty = JStr ''Polygon''")
    case True
    with cb eq show ?thesis by (simp add: polygon_needs_ring)
  next
    case False
    note np = this
    show ?thesis
    proof (cases "ty = JStr ''MultiPolygon''")
      case True
      with np cb eq show ?thesis by (simp add: multipolygon_needs_rings)
    next
      case False
      with np cb eq show ?thesis by simp
    qed
  qed
  with g gk c ty show ?thesis
    by (simp add: readable_feature_def readable_geometry_def)
qed

text \<open>
  Claim C5 as stated: malformed coordinates yield false. This fails on two mappings with
  malformed coordinates. In \<open>feat_empty_ring\<close> the ring of the first polygon is an empty
  mapping: \<^verbatim>\<open>coordinates.extend\<close> adds nothing for it, the second polygon gives the
  centre (-98, 30.5), and the result is true. In \<open>feat_bool_lat\<close> a latitude is the
  boolean true: \<^verbatim>\<open>sum\<close> adds it as 1, the mean latitude is (60.5 + 1) / 2 = 30.75, and
  the result is true.
\<close>

theorem C5_counterexample:
  "is_in_travis_county feat_empty_ring \<and> is_in_travis_county feat_bool_lat"
  by (simp add: feat_empty_ring_def feat_bool_lat_def is_in_travis_county_def check_bounds_def
        center_in_bounds_def py_div_def north_def south_def east_def west_def)

text \<open>
  Claim C5, amended: for every mapping passed as a feature, \<^verbatim>\<open>is_in_travis_county\<close>
  returns false, and raises nothing, when the geometry key is absent or the geometry is
  not readable. Readable means: the geometry is a mapping with a type and coordinates;
  the type is Polygon and the coordinates are a list whose first entry is a non-empty
  list of positions, or the type is MultiPolygon and the coordinates are a list of
  polygons, each a non-empty list whose first entry is a list of positions, an empty
  string or an empty mapping; a position is a list that begins with two entries, each a
  number or a boolean. Whatever the feature, an exception raised inside the function is
  caught: the result is false and one diagnostic is printed.
\<close>

theorem C5_unreadable_is_false:
  "(\<not> readable_feature kvs \<longrightarrow> \<not> is_in_travis_county (JObj kvs)) \<and>
   (check_bounds f = Inl e \<longrightarrow>
      \<not> is_in_travis_county f \<and> bounds_msgs f = [MsgBoundsError e])"
proof (intro conjI impI)
  assume "\<not> readable_feature kvs"
  then show "\<not> is_in_travis_county (JObj kvs)"
    using in_region_readable by blast
next
  assume "check_bounds f = Inl e"
  then show "\<not> is_in_travis_county f"
    by (simp add: is_in_travis_county_def)
next
  assume "check_bounds f = Inl e"
  then show "bounds_msgs f = [MsgBoundsError e]"
    by (simp add: bounds_msgs_def)
qed

theorem C5_unreadable_is_false_witness:
  "\<not> is_in_travis_county (JObj [(''type'', JStr ''Feature'')]) \<and>
   \<not> is_in_travis_county (JObj [(''geometry'', JNull)]) \<and>
   \<not> is_in_travis_county (JObj [(''geometry'', JObj [(''type'', JStr ''Polygon'')])]) \<and>
   \<not> is_in_travis_county (JObj [(''geometry'',
        JObj [(''type'', JStr ''Polygon''), (''coordinates'', JArr [])])]) \<and>
   \<not> is_in_travis_county (JObj [(''geometry'',
        JObj [(''type'', JStr ''MultiPolygon''), (''coordinates'', JStr ''abc'')])]) \<and>
   \<not> is_in_travis_county (JObj [(''geometry'',
        JObj [(''type'', JStr ''MultiPolygon''), (''coordinates'', JArr [JNum 5])])]) \<and>
   \<not> is_in_travis_county feat_text_lat \<and>
   bounds_msgs feat_text_lat = [MsgBoundsError TypeError]"
proof -
  have e: "check_bounds feat_text_lat = Inl TypeError"
    by (simp add: feat_text_lat_def check_bounds_def center_in_bounds_def py_div_def)
  have "\<not> is_in_travis_county (JObj [(''type'', JStr ''Feature'')])"
    using C5_unreadable_is_false[where kvs = "[(''type'', JStr ''Feature'')]"]
    by (simp add: readable_feature_def)
  moreover have "\<not> is_in_travis_county (JObj [(''geometry'', JNull)])"
    using C5_unreadable_is_false[where kvs = "[(''geometry'', JNull)]"]
    by (simp add: readable_feature_def readable_geometry_def)
  moreover have "\<not> is_in_travis_county (JObj [(''geometry'', JObj [(''type'', JStr ''Polygon'')])])"
    using C5_unreadable_is_false[where kvs = "[(''geometry'', JObj [(''type'', JStr ''Polygon'')])]"]
    by (simp add: readable_feature_def readable_geometry_def)
  moreover have "\<not> is_in_travis_county (JObj [(''geometry'',
        JObj [(''type'', JStr ''Polygon''), (''coordinates'', JArr [])])])"
    using C5_unreadable_is_false[where kvs = "[(''geometry'',
        JObj [(''type'', JStr ''Polygon''), (''coordinates'', JArr [])])]"]
    by (simp add: readable_feature_def readable_geometry_def)
  moreover have "\<not> is_in_travis_county (JObj [(''geometry'',
        JObj [(''type'', JStr ''MultiPolygon''), (''coordinates'', JStr ''abc'')])])"
    using C5_unreadable_is_false[where kvs = "[(''geometry'',
        JObj [(''type'', JStr ''MultiPolygon''), (''coordinates'', JStr ''abc'')])]"]
    by (simp add: readable_feature_def readable_geometry_def)
  moreover have "\<not> is_in_travis_county (JObj [(''geometry'',
        JObj [(''type'', JStr ''MultiPolygon''), (''coordinates'', JArr [JNum 5])])])"
    using C5_unreadable_is_false[where kvs = "[(''geometry'',
        JObj [(''type'', JStr ''MultiPolygon''), (''coordinates'', JArr [JNum 5])])]"]
    by (simp add: readable_feature_def readable_geometry_def)
  moreover have "\<not> is_in_travis_county feat_text_lat"
    using C5_unreadable_is_false[where kvs = "[(''geometry'', JObj [(''type'', JStr ''Polygon''),
         (''coordinates'', JArr [JArr [JArr [JNum (- 98), JStr ''30.5'']]])])]"]
    by (simp add: feat_text_lat_def readable_feature_def readable_geometry_def)
  moreover have "bounds_msgs feat_text_lat = [MsgBoundsError TypeError]"
    using e C5_unreadable_is_false[where f = feat_text_lat and e = TypeError] by simp
  ultimately show ?thesis by simp
qed

section \<open>What is kept\<close>

lemma take_cap_Cons:
  "take (nat (max 1 k)) (x # xs) = x # (if k \<le> 1 then [] else take (nat (max 1 (k - 1))) xs)"
proof (cases "k \<le> 1")
  case True
  then have "nat (max 1 k) = Suc 0" by simp
  with True show ?thesis by simp
next
  case False
  then have "nat (max 1 k) = Suc (nat (max 1 (k - 1)))" by simp
  with False show ?thesis by simp
qed

text \<open>
  The kept list of the loop: of the in-region values that the loop decodes, the first
  \<open>max_buildings - found_count\<close>, and one when that number is below one.
\<close>

lemma scan_lines_kept:
  "travis_buildings (fst (snd (scan_lines loads mx st f))) =
     travis_buildings st @ take (nat (max 1 (mx - found_count st))) (kept_by_scan loads st f)"
proof (induction f arbitrary: st)
  case Nil
  then show ?case by (simp add: kept_by_scan_def)
next
  case (Cons raw f)
  show ?case
    by (auto simp: scan_line_def complete_feature_def Let_def kept_by_scan_def Cons.IH
          take_cap_Cons diff_diff_eq
          split: assembled.splits loaded.splits)
qed

lemma scan_lines_found_count:
  "found_count (fst (snd (scan_lines loads mx st f))) =
     found_count st +
     int (length (take (nat (max 1 (mx - found_count st))) (kept_by_scan loads st f)))"
proof (induction f arbitrary: st)
  case Nil
  then show ?case by (simp add: kept_by_scan_def)
next
  case (Cons raw f)
  show ?case
    by (auto simp: scan_line_def complete_feature_def Let_def kept_by_scan_def Cons.IH
          take_cap_Cons diff_diff_eq
          split: assembled.splits loaded.splits)
qed

text \<open>With a maximum of at least one, the counter of kept features never exceeds it.\<close>

lemma scan_lines_cap:
  assumes "found_count st = 0" and "1 \<le> mx"
  shows "found_count (fst (snd (scan_lines loads mx st f))) \<le> mx"
proof -
  have "length (take (nat mx) (kept_by_scan loads st f)) \<le> nat mx"
    by simp
  then have "int (length (take (nat mx) (kept_by_scan loads st f))) \<le> mx"
    using assms(2) by linarith
  moreover have "max 1 mx = mx" using assms(2) by simp
  ultimately show ?thesis using assms(1) by (simp add: scan_lines_found_count)
qed

lemma process_saved:
  assumes "process_texas_geojson loads mx inp = Saved doc st unread"
    and "readline inp = (line, f)" and "seek_features line f = (line', f')"
  shows "doc = output_geojson (travis_buildings st) \<and>
         travis_buildings st = take (nat (max 1 mx)) (kept_by_scan loads init_state f')"
proof -
  obtain c st' u where sc: "scan_lines loads mx init_state f' = (c, st', u)"
    by (cases "scan_lines loads mx init_state f'")
  from assms sc have eq: "st = st'" "doc = output_geojson (travis_buildings st')"
    by (auto simp: process_texas_geojson_def split: if_splits)
  have "travis_buildings st' = take (nat (max 1 mx)) (kept_by_scan loads init_state f')"
    using scan_lines_kept[of loads mx init_state f'] sc by (simp add: init_state_def)
  with eq show ?thesis by simp
qed

text \<open>
  Claim C4: the written document holds the in-region features of the input, in their
  order and unmodified, truncated at the cap. The code does not do this for the cap 0.
  The three feature lines of \<open>file_three\<close> decode to \<open>feat_b\<close>, \<open>feat_out\<close> and \<open>feat_a\<close>; the
  in-region ones are \<open>feat_b\<close> and \<open>feat_a\<close>; truncated at the cap 0 they are none. The run
  with \<open>max_buildings = 0\<close> writes a document whose features are the one feature \<open>feat_b\<close>.
\<close>

theorem C4_cap_zero_document:
  "map (\<lambda>l. sample_loads (strip_comma (strip l))) (take 3 (drop 3 file_three)) =
     [Loaded feat_b, Loaded feat_out, Loaded feat_a] \<and>
   filter is_in_travis_county [feat_b, feat_out, feat_a] = [feat_b, feat_a] \<and>
   take (nat 0) [feat_b, feat_a] = [] \<and>
   written (process_texas_geojson sample_loads 0 file_three) = Some (output_geojson [feat_b]) \<and>
   py_getitem (output_geojson [feat_b]) ''features'' = Inr (JArr [feat_b])"
  by (simp add: process_texas_geojson_def file_three_def seek_features.simps written_def
        output_geojson_def str_eval scan_eval bounds_eval sample_eval)


end
